theory Spec2Isabelle
  imports Main
begin

section \<open>Python values that cross the server's boundaries\<close>

text \<open>
  The server in \<^verbatim>\<open>src/weather_server.py\<close> handles three kinds of data:
  the credential (a \<^verbatim>\<open>str | None\<close>), the results of the AgentPay client, and
  the JSON documents that \<^verbatim>\<open>response.json()\<close> hands back. A JSON document is
  modelled with the Python value it parses to. A float is carried by its
  \<^verbatim>\<open>repr\<close>, the text an f-string interpolates. A dict is the list of its
  items in insertion order (keys distinct). Characters are code points.
\<close>

datatype pyfloat = PyFloat string

datatype json =
    JNull
  | JBool bool
  | JInt int
  | JFloat pyfloat
  | JStr string
  | JArr "json list"
  | JObj "(string \<times> json) list"

text \<open>
  Exceptions are values. \<open>External\<close> stands for whatever a collaborator outside
  the file raises (the AgentPay client, httpx, the downstream ASGI application).
\<close>

datatype exn = KeyError string | TypeError | AttributeError | External string

definition bind_e :: "exn + 'a \<Rightarrow> ('a \<Rightarrow> exn + 'b) \<Rightarrow> exn + 'b" where
  "bind_e m f = (case m of Inl e \<Rightarrow> Inl e | Inr x \<Rightarrow> f x)"

primrec map_e :: "('a \<Rightarrow> exn + 'b) \<Rightarrow> 'a list \<Rightarrow> exn + 'b list" where
  "map_e f [] = Inr []"
| "map_e f (x # xs) =
     (case f x of
        Inl e \<Rightarrow> Inl e
      | Inr y \<Rightarrow> (case map_e f xs of Inl e \<Rightarrow> Inl e | Inr ys \<Rightarrow> Inr (y # ys)))"

subsection \<open>Built-in operations of Python on these values\<close>

text \<open>\<^verbatim>\<open>bool(v)\<close>: the truth value \<^verbatim>\<open>not v\<close> negates.\<close>

fun truthy :: "json \<Rightarrow> bool" where
  "truthy JNull = False"
| "truthy (JBool b) = b"
| "truthy (JInt i) = (i \<noteq> 0)"
| "truthy (JFloat (PyFloat r)) = (r \<noteq> ''0.0'' \<and> r \<noteq> ''-0.0'')"
| "truthy (JStr s) = (s \<noteq> [])"
| "truthy (JArr xs) = (xs \<noteq> [])"
| "truthy (JObj kvs) = (kvs \<noteq> [])"

fun is_substring :: "string \<Rightarrow> string \<Rightarrow> bool" where
  "is_substring k [] = (k = [])"
| "is_substring k (c # cs) = (if take (length k) (c # cs) = k then True else is_substring k cs)"

text \<open>
  \<^verbatim>\<open>key in v\<close> for a string \<open>key\<close>: key membership on a dict, element
  equality on a list, substring on a str, TypeError on None, bool and numbers.
\<close>

fun contains :: "string \<Rightarrow> json \<Rightarrow> exn + bool" where
  "contains key (JObj kvs) = Inr (key \<in> set (map fst kvs))"
| "contains key (JArr xs) = Inr (JStr key \<in> set xs)"
| "contains key (JStr s) = Inr (is_substring key s)"
| "contains key JNull = Inl TypeError"
| "contains key (JBool b) = Inl TypeError"
| "contains key (JInt i) = Inl TypeError"
| "contains key (JFloat r) = Inl TypeError"

text \<open>
  \<^verbatim>\<open>v["key"]\<close> with a string key: a dict looks the key up and raises KeyError
  when it is missing; every other value raises TypeError.
\<close>

fun subscript :: "json \<Rightarrow> string \<Rightarrow> exn + json" where
  "subscript (JObj kvs) key =
     (case map_of kvs key of None \<Rightarrow> Inl (KeyError key) | Some v \<Rightarrow> Inr v)"
| "subscript (JArr xs) key = Inl TypeError"
| "subscript (JStr s) key = Inl TypeError"
| "subscript JNull key = Inl TypeError"
| "subscript (JBool b) key = Inl TypeError"
| "subscript (JInt i) key = Inl TypeError"
| "subscript (JFloat r) key = Inl TypeError"

text \<open>\<^verbatim>\<open>v.get(key, default)\<close>: only a dict has the method.\<close>

fun dict_get :: "json \<Rightarrow> string \<Rightarrow> json \<Rightarrow> exn + json" where
  "dict_get (JObj kvs) key dflt =
     Inr (case map_of kvs key of None \<Rightarrow> dflt | Some v \<Rightarrow> v)"
| "dict_get (JArr xs) key dflt = Inl AttributeError"
| "dict_get (JStr s) key dflt = Inl AttributeError"
| "dict_get JNull key dflt = Inl AttributeError"
| "dict_get (JBool b) key dflt = Inl AttributeError"
| "dict_get (JInt i) key dflt = Inl AttributeError"
| "dict_get (JFloat r) key dflt = Inl AttributeError"

text \<open>
  \<^verbatim>\<open>for x in v\<close>: the elements of a list, the keys of a dict, the characters of
  a str; TypeError on a value that is not iterable.
\<close>

fun iterate :: "json \<Rightarrow> exn + json list" where
  "iterate (JArr xs) = Inr xs"
| "iterate (JObj kvs) = Inr (map (\<lambda>kv. JStr (fst kv)) kvs)"
| "iterate (JStr s) = Inr (map (\<lambda>c. JStr [c]) s)"
| "iterate JNull = Inl TypeError"
| "iterate (JBool b) = Inl TypeError"
| "iterate (JInt i) = Inl TypeError"
| "iterate (JFloat r) = Inl TypeError"

text \<open>
  \<^verbatim>\<open>v[:5]\<close>: the first five elements of a list or characters of a str. A dict
  rejects the slice as a key (TypeError before Python 3.12, KeyError from 3.12 on; the
  model raises TypeError); the other values are not subscriptable.
\<close>

fun slice5 :: "json \<Rightarrow> exn + json" where
  "slice5 (JArr xs) = Inr (JArr (take 5 xs))"
| "slice5 (JStr s) = Inr (JStr (take 5 s))"
| "slice5 (JObj kvs) = Inl TypeError"
| "slice5 JNull = Inl TypeError"
| "slice5 (JBool b) = Inl TypeError"
| "slice5 (JInt i) = Inl TypeError"
| "slice5 (JFloat r) = Inl TypeError"

fun show_nat :: "nat \<Rightarrow> string" where
  "show_nat n =
     (if n < 10 then [''0123456789'' ! n]
      else show_nat (n div 10) @ [''0123456789'' ! (n mod 10)])"

declare show_nat.simps [simp del]

definition show_int :: "int \<Rightarrow> string" where
  "show_int i = (if i < 0 then ''-'' @ show_nat (nat (- i)) else show_nat (nat i))"

text \<open>
  \<^verbatim>\<open>str(v)\<close>, which is what \<^verbatim>\<open>f"{v}"\<close> interpolates. The
  \<^verbatim>\<open>repr\<close> of a container is the interpreter's and is taken as a parameter.
\<close>

fun py_str :: "(json \<Rightarrow> string) \<Rightarrow> json \<Rightarrow> string" where
  "py_str container_repr (JStr s) = s"
| "py_str container_repr JNull = ''None''"
| "py_str container_repr (JBool b) = (if b then ''True'' else ''False'')"
| "py_str container_repr (JInt i) = show_int i"
| "py_str container_repr (JFloat (PyFloat r)) = r"
| "py_str container_repr (JArr xs) = container_repr (JArr xs)"
| "py_str container_repr (JObj kvs) = container_repr (JObj kvs)"

text \<open>\<^verbatim>\<open>str(v)\<close> of an optional string attribute: None prints as \<open>None\<close>.\<close>

definition str_opt :: "string option \<Rightarrow> string" where
  "str_opt v = (case v of None \<Rightarrow> ''None'' | Some s \<Rightarrow> s)"

definition nl :: string where
  "nl = [CHR 0x0A]"

text \<open>\<^verbatim>\<open>sep.join(parts)\<close>.\<close>

fun str_join :: "string \<Rightarrow> string list \<Rightarrow> string" where
  "str_join sep [] = []"
| "str_join sep [x] = x"
| "str_join sep (x # y # ys) = x @ sep @ str_join sep (y # ys)"

section \<open>The collaborators and the state of one request\<close>

text \<open>
  \<^verbatim>\<open>validate_api_key\<close> returns an object with \<^verbatim>\<open>is_valid\<close> and
  \<^verbatim>\<open>invalid_reason\<close>; \<^verbatim>\<open>consume\<close> one with \<^verbatim>\<open>success\<close> and
  \<^verbatim>\<open>error_message\<close>. The optional attributes are None when not given.
\<close>

record validation_result =
  is_valid :: bool
  invalid_reason :: "string option"

record consume_result =
  success :: bool
  error_message :: "string option"

text \<open>
  Every call that leaves the file is recorded, in order: a call of
  \<^verbatim>\<open>agentpay_client.validate_api_key\<close>, of \<^verbatim>\<open>uuid.uuid4\<close> (with the
  identifier it returned), of \<^verbatim>\<open>agentpay_client.consume\<close> (credential, amount,
  usage-event identifier) and of \<^verbatim>\<open>make_nws_request\<close> (with the url it was given).
\<close>

datatype event =
    Validate string
  | Uuid4 string
  | Consume string int string
  | Fetch json

text \<open>
  The answers of the outside world. Each may depend on everything that happened before
  (the events so far), so a stateful billing service, a random identifier source and a
  changing network are all covered. \<open>http_get\<close> is the body of the
  \<^verbatim>\<open>try\<close> in \<^verbatim>\<open>make_nws_request\<close>: \<^verbatim>\<open>client.get\<close>,
  \<^verbatim>\<open>raise_for_status\<close> and \<^verbatim>\<open>response.json()\<close>, with \<open>Inl\<close> for
  any exception among them.
\<close>

record env =
  validate_api_key :: "event list \<Rightarrow> string \<Rightarrow> exn + validation_result"
  consume :: "event list \<Rightarrow> string \<Rightarrow> int \<Rightarrow> string \<Rightarrow> exn + consume_result"
  uuid4 :: "event list \<Rightarrow> string"
  http_get :: "event list \<Rightarrow> json \<Rightarrow> exn + json"
  container_repr :: "json \<Rightarrow> string"

text \<open>
  \<^verbatim>\<open>api_key_context\<close> is a ContextVar with default None: it is unset
  (\<open>None\<close>) or holds a \<^verbatim>\<open>str | None\<close>. The state of a request is the
  variable and the events so far.
\<close>

record state =
  api_key_context :: "string option option"
  trace :: "event list"

definition log_event :: "event \<Rightarrow> state \<Rightarrow> state" where
  "log_event ev st = st\<lparr>trace := trace st @ [ev]\<rparr>"

text \<open>
  \<^verbatim>\<open>ContextVar.get\<close> returns the default when the variable is unset;
  \<^verbatim>\<open>set\<close> returns a token that remembers the earlier state of the variable, and
  \<^verbatim>\<open>reset(token)\<close> puts that state back.
\<close>

definition ctx_get :: "state \<Rightarrow> string option" where
  "ctx_get st = (case api_key_context st of None \<Rightarrow> None | Some v \<Rightarrow> v)"

definition ctx_set :: "string option \<Rightarrow> state \<Rightarrow> string option option \<times> state" where
  "ctx_set v st = (api_key_context st, st\<lparr>api_key_context := Some v\<rparr>)"

definition ctx_reset :: "string option option \<Rightarrow> state \<Rightarrow> state" where
  "ctx_reset token st = st\<lparr>api_key_context := token\<rparr>"

section \<open>Constants\<close>

definition NWS_API_BASE :: string where
  "NWS_API_BASE = ''https://api.weather.gov''"

definition ALERT_COST_CENTS :: int where
  "ALERT_COST_CENTS = 2"

definition FORECAST_COST_CENTS :: int where
  "FORECAST_COST_CENTS = 3"

section \<open>The data provider client\<close>

text \<open>
  \<^verbatim>\<open>make_nws_request(url)\<close>: the parsed document, or None when anything in the
  request raised.
\<close>

definition make_nws_request :: "env \<Rightarrow> json \<Rightarrow> state \<Rightarrow> json \<times> state" where
  "make_nws_request env url st =
     ((case http_get env (trace st) url of Inl e \<Rightarrow> JNull | Inr document \<Rightarrow> document),
      log_event (Fetch url) st)"

section \<open>The metered operations\<close>

text \<open>The body of the loop of \<^verbatim>\<open>get_alerts\<close>: one alert as text.\<close>

definition format_alert :: "env \<Rightarrow> json \<Rightarrow> exn + string" where
  "format_alert env feature =
     bind_e (subscript feature ''properties'') (\<lambda>props.
     bind_e (dict_get props ''event'' (JStr ''Unknown'')) (\<lambda>ev.
     bind_e (dict_get props ''areaDesc'' (JStr ''Unknown'')) (\<lambda>area.
     bind_e (dict_get props ''severity'' (JStr ''Unknown'')) (\<lambda>severity.
     bind_e (dict_get props ''description'' (JStr ''No description available'')) (\<lambda>description.
     Inr (nl @ ''Event: '' @ py_str (container_repr env) ev @ nl
          @ ''Area: '' @ py_str (container_repr env) area @ nl
          @ ''Severity: '' @ py_str (container_repr env) severity @ nl
          @ ''Description: '' @ py_str (container_repr env) description @ nl))))))"

text \<open>What \<^verbatim>\<open>get_alerts\<close> does with the fetched document (lines 118 to 132).\<close>

definition alerts_text :: "env \<Rightarrow> json \<Rightarrow> exn + string" where
  "alerts_text env data =
     (if \<not> truthy data then Inr ''No active alerts for this state.''
      else bind_e (contains ''features'' data) (\<lambda>has_features.
        if \<not> has_features then Inr ''No active alerts for this state.''
        else bind_e (subscript data ''features'') (\<lambda>features.
             bind_e (iterate features) (\<lambda>items.
             bind_e (map_e (format_alert env) items) (\<lambda>alerts.
             Inr (str_join (nl @ ''---'' @ nl) alerts))))))"

definition get_alerts :: "env \<Rightarrow> string \<Rightarrow> state \<Rightarrow> (exn + string) \<times> state" where
  "get_alerts env state st =
     (case ctx_get st of
        None \<Rightarrow> (Inr ''Error: API Key missing'', st)
      | Some api_key \<Rightarrow>
          if api_key = [] then (Inr ''Error: API Key missing'', st)
          else
            (let usage_id = uuid4 env (trace st);
                 st1 = log_event (Uuid4 usage_id) st;
                 st2 = log_event (Consume api_key ALERT_COST_CENTS usage_id) st1
             in case consume env (trace st1) api_key ALERT_COST_CENTS usage_id of
                  Inl e \<Rightarrow> (Inl e, st2)
                | Inr result \<Rightarrow>
                    if \<not> success result
                    then (Inr (''Error: '' @ str_opt (error_message result)), st2)
                    else if (if state = [] then True else length state \<noteq> 2)
                    then (Inr ''Error: Please provide a valid two-letter US state code.'', st2)
                    else
                      (let url = NWS_API_BASE @ ''/alerts/active/area/'' @ state;
                           (data, st3) = make_nws_request env (JStr url) st2
                       in (alerts_text env data, st3))))"

text \<open>The body of the loop of \<^verbatim>\<open>get_forecast\<close>: one period as text.\<close>

definition format_period :: "env \<Rightarrow> json \<Rightarrow> exn + string" where
  "format_period env period =
     bind_e (subscript period ''name'') (\<lambda>name.
     bind_e (subscript period ''temperature'') (\<lambda>temperature.
     bind_e (subscript period ''temperatureUnit'') (\<lambda>unit.
     bind_e (subscript period ''windSpeed'') (\<lambda>wind_speed.
     bind_e (subscript period ''windDirection'') (\<lambda>wind_direction.
     bind_e (subscript period ''detailedForecast'') (\<lambda>detailed.
     Inr (nl @ py_str (container_repr env) name @ '':'' @ nl
          @ ''Temperature: '' @ py_str (container_repr env) temperature
          @ [CHR 0xB0] @ py_str (container_repr env) unit @ nl
          @ ''Wind: '' @ py_str (container_repr env) wind_speed @ '' ''
          @ py_str (container_repr env) wind_direction @ nl
          @ ''Forecast: '' @ py_str (container_repr env) detailed @ nl)))))))"

text \<open>What \<^verbatim>\<open>get_forecast\<close> does with the second document (lines 167 to 181).\<close>

definition forecast_text :: "env \<Rightarrow> json \<Rightarrow> exn + string" where
  "forecast_text env forecast_data =
     (if \<not> truthy forecast_data then Inr ''Error: Unable to fetch detailed forecast.''
      else bind_e (contains ''properties'' forecast_data) (\<lambda>has_properties.
        if \<not> has_properties then Inr ''Error: Unable to fetch detailed forecast.''
        else bind_e (subscript forecast_data ''properties'') (\<lambda>properties.
             bind_e (subscript properties ''periods'') (\<lambda>periods.
             bind_e (slice5 periods) (\<lambda>first5.
             bind_e (iterate first5) (\<lambda>items.
             bind_e (map_e (format_period env) items) (\<lambda>forecasts.
             Inr (str_join (nl @ ''---'' @ nl) forecasts))))))))"

text \<open>
  The part of \<^verbatim>\<open>get_forecast\<close> after the charge (lines 158 to 181): the points
  lookup, then the fetch of the url it names.
\<close>

definition fetch_forecast :: "env \<Rightarrow> pyfloat \<Rightarrow> pyfloat \<Rightarrow> state \<Rightarrow> (exn + string) \<times> state" where
  "fetch_forecast env latitude longitude st2 =
     (let points_url = NWS_API_BASE @ ''/points/''
                       @ py_str (container_repr env) (JFloat latitude) @ '',''
                       @ py_str (container_repr env) (JFloat longitude);
          (points_data, st3) = make_nws_request env (JStr points_url) st2
      in if \<not> truthy points_data
         then (Inr ''Error: Unable to fetch forecast data for this location.'', st3)
         else case contains ''properties'' points_data of
                Inl e \<Rightarrow> (Inl e, st3)
              | Inr has_properties \<Rightarrow>
                  if \<not> has_properties
                  then (Inr ''Error: Unable to fetch forecast data for this location.'', st3)
                  else (case bind_e (subscript points_data ''properties'')
                               (\<lambda>properties. subscript properties ''forecast'') of
                          Inl e \<Rightarrow> (Inl e, st3)
                        | Inr forecast_url \<Rightarrow>
                            (let (forecast_data, st4) = make_nws_request env forecast_url st3
                             in (forecast_text env forecast_data, st4))))"

definition get_forecast :: "env \<Rightarrow> pyfloat \<Rightarrow> pyfloat \<Rightarrow> state \<Rightarrow> (exn + string) \<times> state" where
  "get_forecast env latitude longitude st =
     (case ctx_get st of
        None \<Rightarrow> (Inr ''Error: API Key missing'', st)
      | Some api_key \<Rightarrow>
          if api_key = [] then (Inr ''Error: API Key missing'', st)
          else
            (let usage_id = uuid4 env (trace st);
                 st1 = log_event (Uuid4 usage_id) st;
                 st2 = log_event (Consume api_key FORECAST_COST_CENTS usage_id) st1
             in case consume env (trace st1) api_key FORECAST_COST_CENTS usage_id of
                  Inl e \<Rightarrow> (Inl e, st2)
                | Inr result \<Rightarrow>
                    if \<not> success result
                    then (Inr (''Error: '' @ str_opt (error_message result)), st2)
                    else fetch_forecast env latitude longitude st2))"

section \<open>The middleware\<close>

record response =
  content :: json
  status_code :: int

datatype tool_call = GetAlerts string | GetForecast pyfloat pyfloat

text \<open>
  A request, as far as the file reads it: \<^verbatim>\<open>request.headers.get\<close> (the lookup
  is Starlette's) and the tool call its body asks for.
\<close>

record request =
  headers :: "string \<Rightarrow> string option"
  rpc :: tool_call

text \<open>\<^verbatim>\<open>JSONResponse({"error": ..., "message": ...}, status_code=...)\<close>.\<close>

definition JSONResponse :: "string \<Rightarrow> string \<Rightarrow> int \<Rightarrow> response" where
  "JSONResponse err msg code =
     \<lparr>content = JObj [(''error'', JStr err), (''message'', JStr msg)], status_code = code\<rparr>"

text \<open>
  \<^verbatim>\<open>ApiKeyMiddleware.dispatch\<close>. Lines 63 to 78 either produce a rejection or
  fall through; lines 81 to 86 bind the credential, run \<^verbatim>\<open>call_next\<close> and
  reset the variable in the \<^verbatim>\<open>finally\<close> clause, whether
  \<^verbatim>\<open>call_next\<close> returned or raised.
\<close>

definition dispatch ::
  "env \<Rightarrow> (request \<Rightarrow> state \<Rightarrow> (exn + response) \<times> state) \<Rightarrow> request \<Rightarrow> state
     \<Rightarrow> (exn + response) \<times> state" where
  "dispatch env call_next request st =
     (let api_key = headers request ''X-AGENTPAY-API-KEY'' in
      case (case api_key of
              None \<Rightarrow> (None, st)
            | Some k \<Rightarrow>
                if k = [] then (None, st)
                else
                  (let st1 = log_event (Validate k) st
                   in case validate_api_key env (trace st) k of
                        Inl e \<Rightarrow>
                          (Some (JSONResponse ''Internal Server Error''
                                   ''API Key validation failed'' 500), st1)
                      | Inr validation_result \<Rightarrow>
                          if \<not> is_valid validation_result
                          then (Some (JSONResponse ''Unauthorized''
                                        (''Invalid API Key: ''
                                         @ str_opt (invalid_reason validation_result)) 401), st1)
                          else (None, st1))) of
        (Some rejection, st1) \<Rightarrow> (Inr rejection, st1)
      | (None, st1) \<Rightarrow>
          (let (token, st2) = ctx_set api_key st1;
               (outcome, st3) = call_next request st2
           in (outcome, ctx_reset token st3)))"

section \<open>The next stage\<close>

text \<open>
  Modelled from the spec: the RPC front end (\<^verbatim>\<open>mcp.sse_app()\<close>, a library that
  is not in the source). The spec says of it that "it invokes named operations with typed
  arguments and returns a text result". The model runs the operation the request names
  and wraps its text in a response; an exception of the operation is passed on.
\<close>

definition call_tool :: "env \<Rightarrow> tool_call \<Rightarrow> state \<Rightarrow> (exn + string) \<times> state" where
  "call_tool env tc st =
     (case tc of
        GetAlerts region \<Rightarrow> get_alerts env region st
      | GetForecast latitude longitude \<Rightarrow> get_forecast env latitude longitude st)"

definition rpc_front_end :: "env \<Rightarrow> request \<Rightarrow> state \<Rightarrow> (exn + response) \<times> state" where
  "rpc_front_end env request st =
     (case call_tool env (rpc request) st of
        (Inl e, st') \<Rightarrow> (Inl e, st')
      | (Inr text, st') \<Rightarrow> (Inr \<lparr>content = JStr text, status_code = 200\<rparr>, st'))"

section \<open>Sample collaborators and requests\<close>

text \<open>
  Concrete inputs on which the theorems below are run: collaborators that give fixed
  answers, an identifier source that numbers its calls, a small network and a request
  with at most the credential header.
\<close>

definition sample_env ::
  "(exn + validation_result) \<Rightarrow> (exn + consume_result) \<Rightarrow> (json \<Rightarrow> exn + json) \<Rightarrow> env" where
  "sample_env validation consumption net =
     \<lparr>validate_api_key = (\<lambda>tr k. validation),
      consume = (\<lambda>tr k amount usage_id. consumption),
      uuid4 = (\<lambda>tr. ''usage-'' @ show_nat (length tr)),
      http_get = (\<lambda>tr url. net url),
      container_repr = (\<lambda>v. ''<container>'')\<rparr>"

definition sample_net :: "json \<Rightarrow> exn + json" where
  "sample_net url =
     (if url = JStr ''https://api.weather.gov/alerts/active/area/CA''
      then Inr (JObj [(''features'', JArr [JObj [(''id'', JStr ''a1'')]])])
      else if url = JStr ''https://api.weather.gov/points/39.0,-77.0''
      then Inr (JObj [(''properties'', JObj [(''forecast'', JStr ''https://f'')])])
      else if url = JStr ''https://f''
      then Inr (JObj [(''properties'',
                  JObj [(''periods'', JArr [JObj [(''temperature'', JInt 50)]])])])
      else Inl (External ''HTTPStatusError''))"

definition sample_request :: "string option \<Rightarrow> tool_call \<Rightarrow> request" where
  "sample_request credential tc =
     \<lparr>headers = (\<lambda>name. if name = ''X-AGENTPAY-API-KEY'' then credential else None),
      rpc = tc\<rparr>"

definition sample_state :: "string option option \<Rightarrow> state" where
  "sample_state v = \<lparr>api_key_context = v, trace = []\<rparr>"

definition valid_key :: "exn + validation_result" where
  "valid_key = Inr \<lparr>is_valid = True, invalid_reason = None\<rparr>"

definition charged :: "exn + consume_result" where
  "charged = Inr \<lparr>success = True, error_message = None\<rparr>"

text \<open>The events of a call: what the trace gained between two states.\<close>

definition new_events :: "state \<Rightarrow> state \<Rightarrow> event list" where
  "new_events st st' = drop (length (trace st)) (trace st')"

fun is_consume :: "event \<Rightarrow> bool" where
  "is_consume (Consume k amount usage_id) = True"
| "is_consume (Validate k) = False"
| "is_consume (Uuid4 u) = False"
| "is_consume (Fetch url) = False"

fun is_uuid4 :: "event \<Rightarrow> bool" where
  "is_uuid4 (Uuid4 u) = True"
| "is_uuid4 (Validate k) = False"
| "is_uuid4 (Consume k amount usage_id) = False"
| "is_uuid4 (Fetch url) = False"

fun is_fetch :: "event \<Rightarrow> bool" where
  "is_fetch (Fetch url) = True"
| "is_fetch (Validate k) = False"
| "is_fetch (Uuid4 u) = False"
| "is_fetch (Consume k amount usage_id) = False"

section \<open>Shared lemmas\<close>

lemma get_alerts_no_key:
  "ctx_get st = None \<or> ctx_get st = Some [] \<Longrightarrow>
     get_alerts env region st = (Inr ''Error: API Key missing'', st)"
  by (auto simp: get_alerts_def)

lemma get_forecast_no_key:
  "ctx_get st = None \<or> ctx_get st = Some [] \<Longrightarrow>
     get_forecast env latitude longitude st = (Inr ''Error: API Key missing'', st)"
  by (auto simp: get_forecast_def)

lemma call_tool_no_key:
  "ctx_get st = None \<or> ctx_get st = Some [] \<Longrightarrow>
     call_tool env tc st = (Inr ''Error: API Key missing'', st)"
  by (cases tc) (simp_all add: call_tool_def get_alerts_no_key get_forecast_no_key)

lemma rpc_front_end_no_key:
  "ctx_get st = None \<or> ctx_get st = Some [] \<Longrightarrow>
     rpc_front_end env request st =
       (Inr \<lparr>content = JStr ''Error: API Key missing'', status_code = 200\<rparr>, st)"
  by (simp add: rpc_front_end_def call_tool_no_key)

text \<open>
  When the middleware does not reject, it runs the next stage on a state whose variable
  holds the header's value and puts the earlier value of the variable back afterwards.
  The state \<open>st1\<close> is the one the validation left: \<open>st\<close> itself, or \<open>st\<close> with
  the validation call recorded.
\<close>

lemma dispatch_proceeds:
  assumes "headers request ''X-AGENTPAY-API-KEY'' = None \<and> st1 = st
         \<or> headers request ''X-AGENTPAY-API-KEY'' = Some [] \<and> st1 = st
         \<or> (\<exists>k vr. headers request ''X-AGENTPAY-API-KEY'' = Some k \<and> k \<noteq> []
               \<and> validate_api_key env (trace st) k = Inr vr \<and> is_valid vr
               \<and> st1 = st\<lparr>trace := trace st @ [Validate k]\<rparr>)"
  shows "dispatch env call_next request st =
           (fst (call_next request
                   (st1\<lparr>api_key_context := Some (headers request ''X-AGENTPAY-API-KEY'')\<rparr>)),
            (snd (call_next request
                   (st1\<lparr>api_key_context := Some (headers request ''X-AGENTPAY-API-KEY'')\<rparr>)))
              \<lparr>api_key_context := api_key_context st\<rparr>)"
  using assms
  by (auto simp: dispatch_def ctx_set_def ctx_reset_def log_event_def split: prod.splits)

text \<open>The events of the part of \<^verbatim>\<open>get_forecast\<close> after the charge are fetches.\<close>

lemma fetch_forecast_trace:
  "\<exists>fs. trace (snd (fetch_forecast env latitude longitude st)) = trace st @ fs
        \<and> filter is_consume fs = [] \<and> filter is_uuid4 fs = []"
  by (auto simp: fetch_forecast_def Let_def make_nws_request_def log_event_def
      split: prod.splits sum.splits if_splits)

lemma get_alerts_trace:
  assumes "ctx_get st = Some k" and "k \<noteq> []"
  shows "\<exists>fs. trace (snd (get_alerts env region st)) =
           trace st @ [Uuid4 (uuid4 env (trace st)), Consume k 2 (uuid4 env (trace st))] @ fs
        \<and> filter is_consume fs = [] \<and> filter is_uuid4 fs = []"
  using assms
  by (auto simp: get_alerts_def Let_def make_nws_request_def log_event_def ALERT_COST_CENTS_def
      split: prod.splits sum.splits if_splits)

lemma get_forecast_trace:
  assumes "ctx_get st = Some k" and "k \<noteq> []"
  shows "\<exists>fs. trace (snd (get_forecast env latitude longitude st)) =
           trace st @ [Uuid4 (uuid4 env (trace st)), Consume k 3 (uuid4 env (trace st))] @ fs
        \<and> filter is_consume fs = [] \<and> filter is_uuid4 fs = []"
proof -
  let ?u = "uuid4 env (trace st)"
  let ?st2 = "log_event (Consume k 3 ?u) (log_event (Uuid4 ?u) st)"
  have t2: "trace ?st2 = trace st @ [Uuid4 ?u, Consume k 3 ?u]"
    by (simp add: log_event_def)
  obtain fs where fs: "trace (snd (fetch_forecast env latitude longitude ?st2)) = trace ?st2 @ fs"
    "filter is_consume fs = []" "filter is_uuid4 fs = []"
    using fetch_forecast_trace [of env latitude longitude ?st2] by blast
  show ?thesis
  proof (cases "consume env (trace st @ [Uuid4 ?u]) k 3 ?u")
    case (Inl e)
    then show ?thesis using assms
      by (simp add: get_forecast_def Let_def log_event_def FORECAST_COST_CENTS_def)
  next
    case (Inr r)
    show ?thesis
    proof (cases "success r")
      case False
      then show ?thesis using assms Inr
        by (simp add: get_forecast_def Let_def log_event_def FORECAST_COST_CENTS_def)
    next
      case True
      have "get_forecast env latitude longitude st = fetch_forecast env latitude longitude ?st2"
        using assms Inr True
        by (simp add: get_forecast_def Let_def log_event_def FORECAST_COST_CENTS_def)
      then show ?thesis using fs t2 by simp
    qed
  qed
qed

section \<open>The middleware rejects what the billing client rejects\<close>

text \<open>
  Claim C1. A request carries a credential header, the billing client is asked and
  reports the credential invalid. Then the middleware answers with status 401 and the body
  \<open>{error: "Unauthorized", message: "Invalid API Key: <reason>"}\<close>, the reason being
  the text of the validation result's \<^verbatim>\<open>invalid_reason\<close>. The answer and the
  final state are the same for every next stage, and the only recorded event is the
  validation call: no operation ran, nothing was consumed, nothing was fetched.
\<close>

theorem dispatch_invalid_key_unauthorized:
  assumes "headers request ''X-AGENTPAY-API-KEY'' = Some k" and "k \<noteq> []"
    and "validate_api_key env (trace st) k = Inr vr" and "\<not> is_valid vr"
  shows "dispatch env call_next request st =
           (Inr \<lparr>content = JObj [(''error'', JStr ''Unauthorized''),
                                 (''message'',
                                  JStr (''Invalid API Key: '' @ str_opt (invalid_reason vr)))],
                 status_code = 401\<rparr>,
            st\<lparr>trace := trace st @ [Validate k]\<rparr>)"
  using assms by (simp add: dispatch_def JSONResponse_def log_event_def)

theorem dispatch_invalid_key_unauthorized_witness:
  "headers (sample_request (Some ''bad'') (GetAlerts ''CA'')) ''X-AGENTPAY-API-KEY'' = Some ''bad''
   \<and> ''bad'' \<noteq> []
   \<and> validate_api_key
        (sample_env (Inr \<lparr>is_valid = False, invalid_reason = Some ''expired''\<rparr>) charged sample_net)
        (trace (sample_state None)) ''bad''
       = Inr \<lparr>is_valid = False, invalid_reason = Some ''expired''\<rparr>
   \<and> \<not> is_valid \<lparr>is_valid = False, invalid_reason = Some ''expired''\<rparr>
   \<and> dispatch
        (sample_env (Inr \<lparr>is_valid = False, invalid_reason = Some ''expired''\<rparr>) charged sample_net)
        (rpc_front_end
           (sample_env (Inr \<lparr>is_valid = False, invalid_reason = Some ''expired''\<rparr>) charged sample_net))
        (sample_request (Some ''bad'') (GetAlerts ''CA'')) (sample_state None)
       = (Inr \<lparr>content = JObj [(''error'', JStr ''Unauthorized''),
                               (''message'', JStr ''Invalid API Key: expired'')],
               status_code = 401\<rparr>,
          \<lparr>api_key_context = None, trace = [Validate ''bad'']\<rparr>)"
proof -
  let ?vr = "\<lparr>is_valid = False, invalid_reason = Some ''expired''\<rparr>"
  let ?env = "sample_env (Inr ?vr) charged sample_net"
  let ?req = "sample_request (Some ''bad'') (GetAlerts ''CA'')"
  have h1: "headers ?req ''X-AGENTPAY-API-KEY'' = Some ''bad''"
    by (simp add: sample_request_def)
  have h2: "''bad'' \<noteq> []" by simp
  have h3: "validate_api_key ?env (trace (sample_state None)) ''bad'' = Inr ?vr"
    by (simp add: sample_env_def)
  have h4: "\<not> is_valid ?vr" by simp
  show ?thesis
    using h1 h2 h3 h4
      dispatch_invalid_key_unauthorized [OF h1 h2 h3 h4, of "rpc_front_end ?env"]
    by (simp add: sample_state_def str_opt_def)
qed

section \<open>A failed charge stops the operation\<close>

text \<open>
  Claim C2. In a call of \<^verbatim>\<open>get_alerts\<close> or \<^verbatim>\<open>get_forecast\<close> with a
  credential in the context, when consume returns a result that is not a success, the
  text the operation returns is the failure's message, in full, behind the fixed marker
  \<open>Error: \<close> of line 110 and line 156
  (\<^verbatim>\<open>f"Error: {result.error_message}"\<close>). The events of the call are the
  identifier and the one consume call: no document is fetched.
\<close>

theorem consume_failure_no_fetch:
  assumes "ctx_get st = Some k" and "k \<noteq> []" and "\<not> success r"
  shows "(consume env (trace st @ [Uuid4 (uuid4 env (trace st))]) k ALERT_COST_CENTS
              (uuid4 env (trace st)) = Inr r \<longrightarrow>
          get_alerts env region st =
            (Inr (''Error: '' @ str_opt (error_message r)),
             st\<lparr>trace := trace st @ [Uuid4 (uuid4 env (trace st)),
                                     Consume k 2 (uuid4 env (trace st))]\<rparr>))
       \<and> (consume env (trace st @ [Uuid4 (uuid4 env (trace st))]) k FORECAST_COST_CENTS
              (uuid4 env (trace st)) = Inr r \<longrightarrow>
          get_forecast env latitude longitude st =
            (Inr (''Error: '' @ str_opt (error_message r)),
             st\<lparr>trace := trace st @ [Uuid4 (uuid4 env (trace st)),
                                     Consume k 3 (uuid4 env (trace st))]\<rparr>))"
  using assms
  by (simp add: get_alerts_def get_forecast_def log_event_def Let_def
      ALERT_COST_CENTS_def FORECAST_COST_CENTS_def)

theorem consume_failure_no_fetch_witness:
  "ctx_get (sample_state (Some (Some ''good''))) = Some ''good''
   \<and> ''good'' \<noteq> []
   \<and> \<not> success \<lparr>success = False, error_message = Some ''Insufficient balance''\<rparr>
   \<and> get_alerts
        (sample_env valid_key
           (Inr \<lparr>success = False, error_message = Some ''Insufficient balance''\<rparr>) sample_net)
        ''CA'' (sample_state (Some (Some ''good'')))
       = (Inr ''Error: Insufficient balance'',
          \<lparr>api_key_context = Some (Some ''good''),
           trace = [Uuid4 ''usage-0'', Consume ''good'' 2 ''usage-0'']\<rparr>)
   \<and> get_forecast
        (sample_env valid_key
           (Inr \<lparr>success = False, error_message = Some ''Insufficient balance''\<rparr>) sample_net)
        (PyFloat ''39.0'') (PyFloat ''-77.0'') (sample_state (Some (Some ''good'')))
       = (Inr ''Error: Insufficient balance'',
          \<lparr>api_key_context = Some (Some ''good''),
           trace = [Uuid4 ''usage-0'', Consume ''good'' 3 ''usage-0'']\<rparr>)"
proof -
  let ?r = "\<lparr>success = False, error_message = Some ''Insufficient balance''\<rparr>"
  let ?env = "sample_env valid_key (Inr ?r) sample_net"
  let ?st = "sample_state (Some (Some ''good''))"
  have h1: "ctx_get ?st = Some ''good''"
    by (simp add: sample_state_def ctx_get_def)
  have h2: "''good'' \<noteq> []" by simp
  have h3: "\<not> success ?r" by simp
  have u: "uuid4 ?env (trace ?st) = ''usage-0''"
    by (simp add: sample_env_def sample_state_def show_nat.simps)
  have c: "consume ?env tr ''good'' amount uid = Inr ?r" for tr amount uid
    by (simp add: sample_env_def)
  show ?thesis
    using h1 h2 h3 u c
      consume_failure_no_fetch [OF h1 h2 h3, of ?env "''CA''" "PyFloat ''39.0''" "PyFloat ''-77.0''"]
    by (simp add: sample_state_def str_opt_def)
qed

section \<open>The region code is checked after the charge\<close>

text \<open>
  Claim C3, as stated: for the region code \<open>ZZ\<close> the operation returns the validation
  message and fetches nothing. The check of the source is
  \<^verbatim>\<open>not state or len(state) != 2\<close>, and \<open>ZZ\<close> has two characters: the
  operation goes on to fetch the alerts of area \<open>ZZ\<close>, and its result is what the
  document gives (here the provider has no such area, the fetch yields None and the
  result is the "no alerts" text).
\<close>

theorem region_zz_counterexample:
  "get_alerts (sample_env valid_key charged sample_net) ''ZZ'' (sample_state (Some (Some ''good'')))
     = (Inr ''No active alerts for this state.'',
        \<lparr>api_key_context = Some (Some ''good''),
         trace = [Uuid4 ''usage-0'', Consume ''good'' 2 ''usage-0'',
                  Fetch (JStr ''https://api.weather.gov/alerts/active/area/ZZ'')]\<rparr>)
   \<and> fst (get_alerts (sample_env valid_key charged sample_net) ''ZZ''
            (sample_state (Some (Some ''good''))))
     \<noteq> Inr ''Error: Please provide a valid two-letter US state code.''
   \<and> filter is_fetch
        (trace (snd (get_alerts (sample_env valid_key charged sample_net) ''ZZ''
                       (sample_state (Some (Some ''good''))))))
     = [Fetch (JStr ''https://api.weather.gov/alerts/active/area/ZZ'')]"
  by (simp add: get_alerts_def sample_env_def sample_state_def ctx_get_def Let_def
      log_event_def charged_def show_nat.simps ALERT_COST_CENTS_def NWS_API_BASE_def
      make_nws_request_def sample_net_def alerts_text_def)

text \<open>
  Claim C3, amended. For a region code whose length is not two (the empty string,
  \<open>ZZZ\<close>), with a credential in the context and a successful consume, the operation
  returns the validation message; the events of the call are the identifier and the one
  consume call, so the usage event was recorded and nothing was fetched.
\<close>

theorem wrong_length_region_charged_not_fetched:
  assumes "ctx_get st = Some k" and "k \<noteq> []"
    and "consume env (trace st @ [Uuid4 (uuid4 env (trace st))]) k ALERT_COST_CENTS
           (uuid4 env (trace st)) = Inr r"
    and "success r" and "length region \<noteq> 2"
  shows "get_alerts env region st =
           (Inr ''Error: Please provide a valid two-letter US state code.'',
            st\<lparr>trace := trace st @ [Uuid4 (uuid4 env (trace st)),
                                    Consume k 2 (uuid4 env (trace st))]\<rparr>)"
  using assms
  by (simp add: get_alerts_def log_event_def Let_def ALERT_COST_CENTS_def)

theorem wrong_length_region_charged_not_fetched_witness:
  "ctx_get (sample_state (Some (Some ''good''))) = Some ''good''
   \<and> ''good'' \<noteq> []
   \<and> success \<lparr>success = True, error_message = None\<rparr>
   \<and> length ''ZZZ'' \<noteq> 2
   \<and> get_alerts (sample_env valid_key charged sample_net) ''ZZZ''
        (sample_state (Some (Some ''good'')))
       = (Inr ''Error: Please provide a valid two-letter US state code.'',
          \<lparr>api_key_context = Some (Some ''good''),
           trace = [Uuid4 ''usage-0'', Consume ''good'' 2 ''usage-0'']\<rparr>)"
proof -
  let ?r = "\<lparr>success = True, error_message = None\<rparr>"
  let ?env = "sample_env valid_key charged sample_net"
  let ?st = "sample_state (Some (Some ''good''))"
  have h1: "ctx_get ?st = Some ''good''"
    by (simp add: sample_state_def ctx_get_def)
  have h2: "''good'' \<noteq> []" by simp
  have h3: "consume ?env (trace ?st @ [Uuid4 (uuid4 ?env (trace ?st))]) ''good'' ALERT_COST_CENTS
              (uuid4 ?env (trace ?st)) = Inr ?r"
    by (simp add: sample_env_def charged_def)
  have h4: "success ?r" by simp
  have h5: "length ''ZZZ'' \<noteq> 2" by simp
  have u: "uuid4 ?env (trace ?st) = ''usage-0''"
    by (simp add: sample_env_def sample_state_def show_nat.simps)
  show ?thesis
    using h1 h2 h4 u wrong_length_region_charged_not_fetched [OF h1 h2 h3 h4 h5]
    by (simp add: sample_state_def)
qed

section \<open>Documents with missing fields\<close>

text \<open>
  Claim C4 says that whatever document the provider returns, an operation returns text
  and no exception leaves it. The source guards the top-level key only
  (\<^verbatim>\<open>"features" not in data\<close>, \<^verbatim>\<open>"properties" not in forecast_data\<close>)
  and gives defaults to the four fields of an alert; it subscripts
  \<^verbatim>\<open>feature["properties"]\<close> and \<^verbatim>\<open>period['name']\<close> directly. With
  a charged credential, the document \<open>{"features": [{"id": "a1"}]}\<close> makes
  \<^verbatim>\<open>get_alerts\<close> raise KeyError \<open>properties\<close>, and a forecast document whose
  one period is \<open>{"temperature": 50}\<close> makes \<^verbatim>\<open>get_forecast\<close> raise KeyError
  \<open>name\<close>; in both calls the charge was made before.
\<close>

theorem missing_field_raises_key_error:
  "get_alerts (sample_env valid_key charged sample_net) ''CA'' (sample_state (Some (Some ''good'')))
     = (Inl (KeyError ''properties''),
        \<lparr>api_key_context = Some (Some ''good''),
         trace = [Uuid4 ''usage-0'', Consume ''good'' 2 ''usage-0'',
                  Fetch (JStr ''https://api.weather.gov/alerts/active/area/CA'')]\<rparr>)
   \<and> get_forecast (sample_env valid_key charged sample_net) (PyFloat ''39.0'') (PyFloat ''-77.0'')
        (sample_state (Some (Some ''good'')))
     = (Inl (KeyError ''name''),
        \<lparr>api_key_context = Some (Some ''good''),
         trace = [Uuid4 ''usage-0'', Consume ''good'' 3 ''usage-0'',
                  Fetch (JStr ''https://api.weather.gov/points/39.0,-77.0''),
                  Fetch (JStr ''https://f'')]\<rparr>)"
proof -
  let ?env = "sample_env valid_key charged sample_net"
  let ?st = "sample_state (Some (Some ''good''))"
  have alerts: "alerts_text ?env (JObj [(''features'', JArr [JObj [(''id'', JStr ''a1'')]])])
                  = Inl (KeyError ''properties'')"
    by (simp add: alerts_text_def format_alert_def bind_e_def)
  have forecast: "forecast_text ?env
                    (JObj [(''properties'',
                            JObj [(''periods'', JArr [JObj [(''temperature'', JInt 50)]])])])
                  = Inl (KeyError ''name'')"
    by (simp add: forecast_text_def format_period_def bind_e_def)
  have a: "get_alerts ?env ''CA'' ?st
     = (Inl (KeyError ''properties''),
        \<lparr>api_key_context = Some (Some ''good''),
         trace = [Uuid4 ''usage-0'', Consume ''good'' 2 ''usage-0'',
                  Fetch (JStr ''https://api.weather.gov/alerts/active/area/CA'')]\<rparr>)"
    using alerts
    by (simp add: get_alerts_def sample_env_def sample_state_def ctx_get_def Let_def
        log_event_def charged_def show_nat.simps ALERT_COST_CENTS_def NWS_API_BASE_def
        make_nws_request_def sample_net_def)
  have f: "get_forecast ?env (PyFloat ''39.0'') (PyFloat ''-77.0'') ?st
     = (Inl (KeyError ''name''),
        \<lparr>api_key_context = Some (Some ''good''),
         trace = [Uuid4 ''usage-0'', Consume ''good'' 3 ''usage-0'',
                  Fetch (JStr ''https://api.weather.gov/points/39.0,-77.0''),
                  Fetch (JStr ''https://f'')]\<rparr>)"
    using forecast
    by (simp add: get_forecast_def fetch_forecast_def sample_env_def sample_state_def
        ctx_get_def Let_def log_event_def charged_def show_nat.simps FORECAST_COST_CENTS_def
        NWS_API_BASE_def make_nws_request_def sample_net_def bind_e_def)
  from a f show ?thesis by simp
qed

section \<open>Requests without a usable credential\<close>

text \<open>
  Claim C5. A request has no credential header. The middleware does not reject it: for
  every next stage it binds None, runs the stage and gives back the stage's outcome. When
  the stage runs a metered operation (either one, with any arguments), the operation
  returns the text \<open>Error: API Key missing\<close> and the state is unchanged: nothing was
  asked of the billing client and nothing was fetched.
\<close>

theorem missing_header_reaches_operation:
  assumes "headers request ''X-AGENTPAY-API-KEY'' = None"
  shows "dispatch env call_next request st =
           (fst (call_next request (st\<lparr>api_key_context := Some None\<rparr>)),
            (snd (call_next request (st\<lparr>api_key_context := Some None\<rparr>)))
              \<lparr>api_key_context := api_key_context st\<rparr>)
         \<and> dispatch env (rpc_front_end env) request st =
           (Inr \<lparr>content = JStr ''Error: API Key missing'', status_code = 200\<rparr>, st)"
proof -
  have bound: "ctx_get (st\<lparr>api_key_context := Some None\<rparr>) = None"
    by (simp add: ctx_get_def)
  have general: "dispatch env cn request st =
           (fst (cn request (st\<lparr>api_key_context := Some None\<rparr>)),
            (snd (cn request (st\<lparr>api_key_context := Some None\<rparr>)))
              \<lparr>api_key_context := api_key_context st\<rparr>)" for cn
    using assms dispatch_proceeds [of request st st env cn] by simp
  show ?thesis
    using general [of call_next] general [of "rpc_front_end env"]
    by (simp add: rpc_front_end_no_key [of _ env request] bound)
qed

theorem missing_header_reaches_operation_witness:
  "headers (sample_request None (GetForecast (PyFloat ''39.0'') (PyFloat ''-77.0'')))
     ''X-AGENTPAY-API-KEY'' = None
   \<and> dispatch (sample_env valid_key charged sample_net)
        (rpc_front_end (sample_env valid_key charged sample_net))
        (sample_request None (GetForecast (PyFloat ''39.0'') (PyFloat ''-77.0'')))
        (sample_state None)
       = (Inr \<lparr>content = JStr ''Error: API Key missing'', status_code = 200\<rparr>,
          \<lparr>api_key_context = None, trace = []\<rparr>)"
proof -
  let ?req = "sample_request None (GetForecast (PyFloat ''39.0'') (PyFloat ''-77.0''))"
  have h: "headers ?req ''X-AGENTPAY-API-KEY'' = None"
    by (simp add: sample_request_def)
  show ?thesis
    using h missing_header_reaches_operation [OF h, THEN conjunct2,
        of "sample_env valid_key charged sample_net" "sample_state None"]
    by (simp add: sample_state_def)
qed

section \<open>The validation call fails\<close>

text \<open>
  Claim C6. A request carries a credential header and the validation call raises. Then
  the middleware answers with status 500 and the body
  \<open>{error: "Internal Server Error", message: "API Key validation failed"}\<close>, for every
  next stage; the only recorded event is the validation call, so no operation ran.
\<close>

theorem dispatch_validation_failure_500:
  assumes "headers request ''X-AGENTPAY-API-KEY'' = Some k" and "k \<noteq> []"
    and "validate_api_key env (trace st) k = Inl e"
  shows "dispatch env call_next request st =
           (Inr \<lparr>content = JObj [(''error'', JStr ''Internal Server Error''),
                                 (''message'', JStr ''API Key validation failed'')],
                 status_code = 500\<rparr>,
            st\<lparr>trace := trace st @ [Validate k]\<rparr>)"
  using assms by (simp add: dispatch_def JSONResponse_def log_event_def)

theorem dispatch_validation_failure_500_witness:
  "headers (sample_request (Some ''good'') (GetAlerts ''CA'')) ''X-AGENTPAY-API-KEY'' = Some ''good''
   \<and> ''good'' \<noteq> []
   \<and> validate_api_key (sample_env (Inl (External ''ConnectError'')) charged sample_net)
        (trace (sample_state None)) ''good'' = Inl (External ''ConnectError'')
   \<and> dispatch (sample_env (Inl (External ''ConnectError'')) charged sample_net)
        (rpc_front_end (sample_env (Inl (External ''ConnectError'')) charged sample_net))
        (sample_request (Some ''good'') (GetAlerts ''CA'')) (sample_state None)
       = (Inr \<lparr>content = JObj [(''error'', JStr ''Internal Server Error''),
                               (''message'', JStr ''API Key validation failed'')],
               status_code = 500\<rparr>,
          \<lparr>api_key_context = None, trace = [Validate ''good'']\<rparr>)"
proof -
  let ?env = "sample_env (Inl (External ''ConnectError'')) charged sample_net"
  let ?req = "sample_request (Some ''good'') (GetAlerts ''CA'')"
  have h1: "headers ?req ''X-AGENTPAY-API-KEY'' = Some ''good''"
    by (simp add: sample_request_def)
  have h2: "''good'' \<noteq> []" by simp
  have h3: "validate_api_key ?env (trace (sample_state None)) ''good''
              = Inl (External ''ConnectError'')"
    by (simp add: sample_env_def)
  show ?thesis
    using h1 h2 h3 dispatch_validation_failure_500 [OF h1 h2 h3, of "rpc_front_end ?env"]
    by (simp add: sample_state_def)
qed

section \<open>One charge per metered call\<close>

text \<open>
  Claim C7. A call of \<^verbatim>\<open>get_alerts\<close> or \<^verbatim>\<open>get_forecast\<close> that finds a
  credential in the context keeps the earlier events and adds, among its own events,
  exactly one call of \<^verbatim>\<open>uuid4\<close> and exactly one call of consume: for the
  credential, with the amount 2 for alerts and 3 for the forecast, and with the identifier
  that this call's \<^verbatim>\<open>uuid4\<close> returned. This holds on every path of the operation
  (consume raising, failing or succeeding, any documents), so consume is never called a
  second time.
\<close>

theorem one_consume_per_metered_call:
  assumes "ctx_get st = Some k" and "k \<noteq> []"
  shows "take (length (trace st)) (trace (snd (get_alerts env region st))) = trace st
       \<and> filter is_uuid4 (new_events st (snd (get_alerts env region st)))
           = [Uuid4 (uuid4 env (trace st))]
       \<and> filter is_consume (new_events st (snd (get_alerts env region st)))
           = [Consume k 2 (uuid4 env (trace st))]
       \<and> take (length (trace st)) (trace (snd (get_forecast env latitude longitude st))) = trace st
       \<and> filter is_uuid4 (new_events st (snd (get_forecast env latitude longitude st)))
           = [Uuid4 (uuid4 env (trace st))]
       \<and> filter is_consume (new_events st (snd (get_forecast env latitude longitude st)))
           = [Consume k 3 (uuid4 env (trace st))]"
proof -
  obtain fa where fa: "trace (snd (get_alerts env region st)) =
      trace st @ [Uuid4 (uuid4 env (trace st)), Consume k 2 (uuid4 env (trace st))] @ fa"
    "filter is_consume fa = []" "filter is_uuid4 fa = []"
    using get_alerts_trace [OF assms, of env region] by blast
  obtain ff where ff: "trace (snd (get_forecast env latitude longitude st)) =
      trace st @ [Uuid4 (uuid4 env (trace st)), Consume k 3 (uuid4 env (trace st))] @ ff"
    "filter is_consume ff = []" "filter is_uuid4 ff = []"
    using get_forecast_trace [OF assms, of env latitude longitude] by blast
  show ?thesis
    using fa ff by (simp add: new_events_def)
qed

theorem one_consume_per_metered_call_witness:
  "ctx_get (sample_state (Some (Some ''good''))) = Some ''good''
   \<and> ''good'' \<noteq> []
   \<and> filter is_uuid4
        (new_events (sample_state (Some (Some ''good'')))
           (snd (get_alerts (sample_env valid_key charged sample_net) ''CA''
                   (sample_state (Some (Some ''good''))))))
       = [Uuid4 ''usage-0'']
   \<and> filter is_consume
        (new_events (sample_state (Some (Some ''good'')))
           (snd (get_alerts (sample_env valid_key charged sample_net) ''CA''
                   (sample_state (Some (Some ''good''))))))
       = [Consume ''good'' 2 ''usage-0'']
   \<and> filter is_uuid4
        (new_events (sample_state (Some (Some ''good'')))
           (snd (get_forecast (sample_env valid_key charged sample_net)
                   (PyFloat ''39.0'') (PyFloat ''-77.0'') (sample_state (Some (Some ''good''))))))
       = [Uuid4 ''usage-0'']
   \<and> filter is_consume
        (new_events (sample_state (Some (Some ''good'')))
           (snd (get_forecast (sample_env valid_key charged sample_net)
                   (PyFloat ''39.0'') (PyFloat ''-77.0'') (sample_state (Some (Some ''good''))))))
       = [Consume ''good'' 3 ''usage-0'']"
proof -
  let ?env = "sample_env valid_key charged sample_net"
  let ?st = "sample_state (Some (Some ''good''))"
  have h1: "ctx_get ?st = Some ''good''"
    by (simp add: sample_state_def ctx_get_def)
  have h2: "''good'' \<noteq> []" by simp
  have u: "uuid4 ?env (trace ?st) = ''usage-0''"
    by (simp add: sample_env_def sample_state_def show_nat.simps)
  show ?thesis
    using h1 h2
      one_consume_per_metered_call [OF h1 h2, of ?env "''CA''" "PyFloat ''39.0''" "PyFloat ''-77.0''"]
    unfolding u by simp
qed

section \<open>The context variable around the next stage\<close>

text \<open>
  Claim C8. After \<^verbatim>\<open>dispatch\<close> the context variable is what it was before, for
  every request, every next stage and every outcome of it, a raised exception included.
  And when the middleware does not reject (no header, an empty header, or a credential the
  billing client reports valid), the next stage runs on a state in which the variable is
  set to the header's value, absent or not; the outcome of \<^verbatim>\<open>dispatch\<close> is the
  outcome of the stage, and the state is the stage's with the variable put back.
\<close>

theorem context_bound_then_released:
  "api_key_context (snd (dispatch env call_next request st)) = api_key_context st
   \<and> (headers request ''X-AGENTPAY-API-KEY'' = None
        \<or> headers request ''X-AGENTPAY-API-KEY'' = Some []
        \<or> (\<exists>k vr. headers request ''X-AGENTPAY-API-KEY'' = Some k \<and> k \<noteq> []
              \<and> validate_api_key env (trace st) k = Inr vr \<and> is_valid vr)
      \<longrightarrow> (\<exists>st2. api_key_context st2 = Some (headers request ''X-AGENTPAY-API-KEY'')
            \<and> ctx_get st2 = headers request ''X-AGENTPAY-API-KEY''
            \<and> dispatch env call_next request st =
                (fst (call_next request st2),
                 (snd (call_next request st2))\<lparr>api_key_context := api_key_context st\<rparr>)))"
proof -
  let ?h = "headers request ''X-AGENTPAY-API-KEY''"
  let ?proceeds = "?h = None \<or> ?h = Some []
        \<or> (\<exists>k vr. ?h = Some k \<and> k \<noteq> [] \<and> validate_api_key env (trace st) k = Inr vr
              \<and> is_valid vr)"
  have second: "\<exists>st2. api_key_context st2 = Some ?h \<and> ctx_get st2 = ?h
            \<and> dispatch env call_next request st =
                (fst (call_next request st2),
                 (snd (call_next request st2))\<lparr>api_key_context := api_key_context st\<rparr>)"
    if "?proceeds"
  proof -
    from that obtain st1 where "?h = None \<and> st1 = st \<or> ?h = Some [] \<and> st1 = st
         \<or> (\<exists>k vr. ?h = Some k \<and> k \<noteq> []
               \<and> validate_api_key env (trace st) k = Inr vr \<and> is_valid vr
               \<and> st1 = st\<lparr>trace := trace st @ [Validate k]\<rparr>)"
      by blast
    from dispatch_proceeds [OF this]
    have d: "dispatch env call_next request st =
           (fst (call_next request (st1\<lparr>api_key_context := Some ?h\<rparr>)),
            (snd (call_next request (st1\<lparr>api_key_context := Some ?h\<rparr>)))
              \<lparr>api_key_context := api_key_context st\<rparr>)" .
    have "api_key_context (st1\<lparr>api_key_context := Some ?h\<rparr>) = Some ?h"
      and "ctx_get (st1\<lparr>api_key_context := Some ?h\<rparr>) = ?h"
      by (simp_all add: ctx_get_def)
    with d show ?thesis by blast
  qed
  have first: "api_key_context (snd (dispatch env call_next request st)) = api_key_context st"
    by (simp add: dispatch_def Let_def ctx_set_def ctx_reset_def log_event_def
        split: option.splits sum.splits prod.splits)
  from first second show ?thesis by blast
qed

theorem context_bound_then_released_witness:
  "headers (sample_request (Some ''good'') (GetAlerts ''CA'')) ''X-AGENTPAY-API-KEY'' = Some ''good''
   \<and> ''good'' \<noteq> []
   \<and> validate_api_key (sample_env valid_key charged sample_net)
        (trace (sample_state (Some (Some ''outer'')))) ''good''
       = Inr \<lparr>is_valid = True, invalid_reason = None\<rparr>
   \<and> is_valid \<lparr>is_valid = True, invalid_reason = None\<rparr>
   \<and> api_key_context
        (snd (dispatch (sample_env valid_key charged sample_net)
                (\<lambda>req s. (Inl (External ''boom''), s\<lparr>api_key_context := Some (Some ''other'')\<rparr>))
                (sample_request (Some ''good'') (GetAlerts ''CA''))
                (sample_state (Some (Some ''outer'')))))
       = Some (Some ''outer'')
   \<and> (\<exists>st2. ctx_get st2 = Some ''good''
         \<and> dispatch (sample_env valid_key charged sample_net)
             (\<lambda>req s. (Inl (External ''boom''), s\<lparr>api_key_context := Some (Some ''other'')\<rparr>))
             (sample_request (Some ''good'') (GetAlerts ''CA''))
             (sample_state (Some (Some ''outer'')))
           = (Inl (External ''boom''), st2\<lparr>api_key_context := Some (Some ''outer'')\<rparr>))"
proof -
  let ?env = "sample_env valid_key charged sample_net"
  let ?req = "sample_request (Some ''good'') (GetAlerts ''CA'')"
  let ?st = "sample_state (Some (Some ''outer''))"
  let ?next = "\<lambda>req s. (Inl (External ''boom'') :: exn + response,
                         s\<lparr>api_key_context := Some (Some ''other'')\<rparr>)"
  have h1: "headers ?req ''X-AGENTPAY-API-KEY'' = Some ''good''"
    by (simp add: sample_request_def)
  have h2: "''good'' \<noteq> []" by simp
  have h3: "validate_api_key ?env (trace ?st) ''good'' = Inr \<lparr>is_valid = True, invalid_reason = None\<rparr>"
    by (simp add: sample_env_def valid_key_def)
  have h4: "is_valid \<lparr>is_valid = True, invalid_reason = None\<rparr>" by simp
  have proceeds: "headers ?req ''X-AGENTPAY-API-KEY'' = None
        \<or> headers ?req ''X-AGENTPAY-API-KEY'' = Some []
        \<or> (\<exists>k vr. headers ?req ''X-AGENTPAY-API-KEY'' = Some k \<and> k \<noteq> []
              \<and> validate_api_key ?env (trace ?st) k = Inr vr \<and> is_valid vr)"
    using h1 h2 h3 h4 by blast
  note inst = context_bound_then_released [of ?env ?next ?req ?st]
  from inst have released: "api_key_context (snd (dispatch ?env ?next ?req ?st)) = api_key_context ?st"
    by (rule conjunct1)
  from inst proceeds obtain st2 where st2: "ctx_get st2 = headers ?req ''X-AGENTPAY-API-KEY''"
    "dispatch ?env ?next ?req ?st =
       (fst (?next ?req st2), (snd (?next ?req st2))\<lparr>api_key_context := api_key_context ?st\<rparr>)"
    by blast
  have "ctx_get st2 = Some ''good''" using st2(1) h1 by simp
  moreover have "dispatch ?env ?next ?req ?st
           = (Inl (External ''boom''), st2\<lparr>api_key_context := Some (Some ''outer'')\<rparr>)"
    using st2(2) by (simp add: sample_state_def)
  ultimately have run: "\<exists>st2. ctx_get st2 = Some ''good''
         \<and> dispatch ?env ?next ?req ?st
           = (Inl (External ''boom''), st2\<lparr>api_key_context := Some (Some ''outer'')\<rparr>)"
    by blast
  have "api_key_context (snd (dispatch ?env ?next ?req ?st)) = Some (Some ''outer'')"
    using released by (simp add: sample_state_def)
  with h1 h2 h3 h4 run show ?thesis by blast
qed

section \<open>An empty credential header\<close>

text \<open>
  Claim C10. A request carries the credential header with the empty string. The
  middleware does not ask the billing client and does not reject: for every next stage it
  binds the empty string and gives back the stage's outcome. A metered operation run by
  the stage treats the empty string as no credential: it returns the text
  \<open>Error: API Key missing\<close> and the state is unchanged, so there was no validation,
  no consume and no fetch.
\<close>

theorem empty_header_treated_as_absent:
  assumes "headers request ''X-AGENTPAY-API-KEY'' = Some []"
  shows "dispatch env call_next request st =
           (fst (call_next request (st\<lparr>api_key_context := Some (Some [])\<rparr>)),
            (snd (call_next request (st\<lparr>api_key_context := Some (Some [])\<rparr>)))
              \<lparr>api_key_context := api_key_context st\<rparr>)
         \<and> dispatch env (rpc_front_end env) request st =
           (Inr \<lparr>content = JStr ''Error: API Key missing'', status_code = 200\<rparr>, st)"
proof -
  have bound: "ctx_get (st\<lparr>api_key_context := Some (Some [])\<rparr>) = Some []"
    by (simp add: ctx_get_def)
  have general: "dispatch env cn request st =
           (fst (cn request (st\<lparr>api_key_context := Some (Some [])\<rparr>)),
            (snd (cn request (st\<lparr>api_key_context := Some (Some [])\<rparr>)))
              \<lparr>api_key_context := api_key_context st\<rparr>)" for cn
    using assms dispatch_proceeds [of request st st env cn] by simp
  show ?thesis
    using general [of call_next] general [of "rpc_front_end env"]
    by (simp add: rpc_front_end_no_key [of _ env request] bound)
qed

theorem empty_header_treated_as_absent_witness:
  "headers (sample_request (Some []) (GetAlerts ''CA'')) ''X-AGENTPAY-API-KEY'' = Some []
   \<and> dispatch (sample_env (Inl (External ''must not be asked'')) charged sample_net)
        (rpc_front_end (sample_env (Inl (External ''must not be asked'')) charged sample_net))
        (sample_request (Some []) (GetAlerts ''CA''))
        (sample_state None)
       = (Inr \<lparr>content = JStr ''Error: API Key missing'', status_code = 200\<rparr>,
          \<lparr>api_key_context = None, trace = []\<rparr>)"
proof -
  let ?req = "sample_request (Some []) (GetAlerts ''CA'')"
  have h: "headers ?req ''X-AGENTPAY-API-KEY'' = Some []"
    by (simp add: sample_request_def)
  show ?thesis
    using h empty_header_treated_as_absent [OF h, THEN conjunct2,
        of "sample_env (Inl (External ''must not be asked'')) charged sample_net"
           "sample_state None"]
    by (simp add: sample_state_def)
qed

end
